theory Spec2Isabelle
  imports Complex_Main
begin

section \<open>The NTP offset logger (offsetlogger.py)\<close>

text \<open>
  Python floats are modelled by the real numbers: rounding, infinities and NaN have no
  counterpart here. Wherever the source would produce a NaN (a minimum over an empty
  pandas selection) the model stops with the error value \<open>NotANumber\<close>; wherever the
  source raises an exception the model returns the matching error value.
\<close>

datatype error =
  TypeError | ValueError | ZeroDivisionError | IndexError | UnderdeterminedFit | NotANumber

text \<open>
  \<open>weights_from_uncertainty\<close> is called with two kinds of column: a numpy array
  (from \<open>weighted_mean\<close> in the acquisition loop) and a pandas Series (from
  \<open>polyfit_with_uncertainty\<close>). They differ in \<open>.min()\<close> of an empty selection: numpy
  raises ValueError, pandas returns NaN.
\<close>

datatype container = NdArray | Series

subsection \<open>Uncertainty weights and the weighted mean\<close>

definition weights_from_uncertainty :: "container \<Rightarrow> real list \<Rightarrow> error + real list" where
  "weights_from_uncertainty k sig_data =
     (let sigs = sig_data;
          pos = filter (\<lambda>s. 0 < s) sigs
      in if pos = [] then
           (case k of
              NdArray \<Rightarrow> Inl ValueError
            | Series \<Rightarrow> if sigs = [] then Inr [] else Inl NotANumber)
         else
           let sigs' = map (\<lambda>s. if s \<le> 0 then min_list pos / 2 else s) sigs
           in Inr (map (\<lambda>s. 1 / s ^ 2) sigs'))"

text \<open>
  The same function over an explicit store of arrays (an address is an index into the
  store), to follow \<open>sig_data.copy()\<close> and the in-place masked assignment
  \<open>sigs[sigs<=0] = ...\<close>. The result is the new store and the address of the weights.
\<close>

type_synonym store = "real list list"

definition alloc :: "store \<Rightarrow> real list \<Rightarrow> store \<times> nat" where
  "alloc h a = (h @ [a], length h)"

definition weights_from_uncertainty_st ::
    "container \<Rightarrow> store \<Rightarrow> nat \<Rightarrow> error + (store \<times> nat)" where
  "weights_from_uncertainty_st k h sig_data =
     (let (h1, sigs) = alloc h (h ! sig_data);
          pos = filter (\<lambda>s. 0 < s) (h1 ! sigs)
      in if pos = [] then
           (case k of
              NdArray \<Rightarrow> Inl ValueError
            | Series \<Rightarrow> if h1 ! sigs = [] then Inr (alloc h1 []) else Inl NotANumber)
         else
           let h2 = h1[sigs := map (\<lambda>s. if s \<le> 0 then min_list pos / 2 else s) (h1 ! sigs)]
           in Inr (alloc h2 (map (\<lambda>s. 1 / s ^ 2) (h2 ! sigs))))"

text \<open>
  \<open>np.average(data, weights=weights)\<close>: the lengths must agree and the weights must not
  sum to zero.
\<close>

definition np_average :: "real list \<Rightarrow> real list \<Rightarrow> error + real" where
  "np_average data weights =
     (if length data \<noteq> length weights then Inl TypeError
      else if sum_list weights = 0 then Inl ZeroDivisionError
      else Inr (sum_list (map2 (*) data weights) / sum_list weights))"

definition weighted_mean :: "real list \<Rightarrow> real list \<Rightarrow> error + (real \<times> real)" where
  "weighted_mean data sig_data =
     (case weights_from_uncertainty NdArray sig_data of
        Inl e \<Rightarrow> Inl e
      | Inr weights \<Rightarrow>
          (case np_average data weights of
             Inl e \<Rightarrow> Inl e
           | Inr average \<Rightarrow> Inr (average, sqrt (1 / sum_list weights))))"

subsection \<open>Data frames\<close>

text \<open>
  Both data frames of the program (\<open>history\<close> and \<open>sample_data\<close>) have the same seven
  columns. A frame is the list of its rows; a column is selected by its label.
\<close>

record row =
  local_time :: real
  pred_time :: real
  serv_time :: real
  offset :: real
  sig_offset :: real
  pred_offset :: real
  sig_pred_offset :: real

datatype label = LocalTime | PredTime | ServTime | Offset | SigOffset | PredOffset | SigPredOffset

fun cell :: "label \<Rightarrow> row \<Rightarrow> real" where
  "cell LocalTime r = local_time r"
| "cell PredTime r = pred_time r"
| "cell ServTime r = serv_time r"
| "cell Offset r = offset r"
| "cell SigOffset r = sig_offset r"
| "cell PredOffset r = pred_offset r"
| "cell SigPredOffset r = sig_pred_offset r"

definition column :: "label \<Rightarrow> row list \<Rightarrow> real list" where
  "column c data = map (cell c) data"

text \<open>\<open>np.mean\<close> and \<open>Series.mean\<close>. On an empty input the source yields NaN; the model is
  only used on the value for non-empty inputs.\<close>

definition mean :: "real list \<Rightarrow> real" where
  "mean xs = sum_list xs / real (length xs)"

subsection \<open>Trend fitting\<close>

text \<open>
  \<open>np.polyfit(x, y, degree, full=True, w=weights)[0]\<close> is a library routine; the functions
  that call it take it as the parameter \<open>pf\<close>: x values, y values, degree, optional
  weights, giving the coefficients (highest power first) or an error.
\<close>

type_synonym fitter = "real list \<Rightarrow> real list \<Rightarrow> nat \<Rightarrow> real list option \<Rightarrow> error + real list"

definition polyfit_with_uncertainty ::
    "fitter \<Rightarrow> row list \<Rightarrow> label \<Rightarrow> label \<Rightarrow> label option \<Rightarrow> nat \<Rightarrow> error + real list" where
  "polyfit_with_uncertainty pf data x_column y_column sig_column degree =
     (let x_data = column x_column data;
          y_data = column y_column data
      in case sig_column of
           Some sc \<Rightarrow>
             (case weights_from_uncertainty Series (column sc data) of
                Inl e \<Rightarrow> Inl e
              | Inr weights \<Rightarrow> pf x_data y_data degree (Some weights))
         | None \<Rightarrow> pf x_data y_data degree None)"

text \<open>\<open>np.polyval(p, x)\<close>: Horner evaluation, highest power first.\<close>

definition polyval :: "real list \<Rightarrow> real \<Rightarrow> real" where
  "polyval p x = foldl (\<lambda>y c. y * x + c) 0 p"

text \<open>
  The quantile of a non-empty array by the default method of numpy: linear interpolation
  between the two order statistics around the position \<open>(n - 1) * q\<close>.
\<close>

definition quantile :: "real list \<Rightarrow> real \<Rightarrow> real" where
  "quantile a q =
     (let s = sort a; n = length s;
          h = real (n - 1) * q;
          lo = nat \<lfloor>h\<rfloor>;
          hi = min (lo + 1) (n - 1)
      in s ! lo + (h - real lo) * (s ! hi - s ! lo))"

text \<open>
  \<open>np.nanquantile(a, [q\<^sub>1, q\<^sub>2])\<close> gives the array of the quantiles. For an empty \<open>a\<close> it
  gives a scalar NaN in place of the array (\<open>None\<close> here), and indexing that scalar, as
  \<open>quartiles[1]\<close> does, raises IndexError.
\<close>

definition nanquantile :: "real list \<Rightarrow> real list \<Rightarrow> real list option" where
  "nanquantile a qs = (if a = [] then None else Some (map (quantile a) qs))"

subsection \<open>Outlier filtering\<close>

text \<open>
  The length check of the source compares two columns of one frame; they are equal in
  length by construction, so its ValueError has no branch here.
\<close>

definition outlier_filter ::
    "fitter \<Rightarrow> row list \<Rightarrow> label \<Rightarrow> label option \<Rightarrow> label option \<Rightarrow> real \<Rightarrow> nat
       \<Rightarrow> error + bool list" where
  "outlier_filter pf data filter_column fit_column sig_column level degree =
     (case (case fit_column of
              None \<Rightarrow> Inr (column filter_column data)
            | Some fc \<Rightarrow>
                (case polyfit_with_uncertainty pf data fc filter_column sig_column degree of
                   Inl e \<Rightarrow> Inl e
                 | Inr trend \<Rightarrow>
                     Inr (map2 (\<lambda>v x. v - polyval trend x)
                            (column filter_column data) (column fc data)))) of
        Inl e \<Rightarrow> Inl e
      | Inr filter_data \<Rightarrow>
          (case nanquantile filter_data [1 / 4, 3 / 4] of
             None \<Rightarrow> Inl IndexError
           | Some quartiles \<Rightarrow>
               (let iqr = quartiles ! 1 - quartiles ! 0;
                    min_val = quartiles ! 0 - level * iqr;
                    max_val = quartiles ! 1 + level * iqr
                in Inr (map (\<lambda>v. v \<ge> min_val \<and> v \<le> max_val) filter_data))))"

definition count_outliers ::
    "fitter \<Rightarrow> row list \<Rightarrow> label \<Rightarrow> label option \<Rightarrow> label option \<Rightarrow> real \<Rightarrow> nat
       \<Rightarrow> error + nat" where
  "count_outliers pf data filter_column fit_column sig_column level degree =
     (case outlier_filter pf data filter_column fit_column sig_column level degree of
        Inl e \<Rightarrow> Inl e
      | Inr flt \<Rightarrow> Inr (length (filter Not flt)))"

definition remove_outliers ::
    "fitter \<Rightarrow> row list \<Rightarrow> label \<Rightarrow> label option \<Rightarrow> label option \<Rightarrow> real \<Rightarrow> nat
       \<Rightarrow> error + row list" where
  "remove_outliers pf data filter_column fit_column sig_column level degree =
     (case outlier_filter pf data filter_column fit_column sig_column level degree of
        Inl e \<Rightarrow> Inl e
      | Inr flt \<Rightarrow> Inr (map fst (filter snd (zip data flt))))"

subsection \<open>Time prediction\<close>

definition predict_time ::
    "fitter \<Rightarrow> real \<Rightarrow> row list \<Rightarrow> real \<Rightarrow> real \<Rightarrow> nat \<Rightarrow> error + real" where
  "predict_time pf t history window level degree =
     (let past_data = filter (\<lambda>r. local_time r < t \<and> local_time r \<ge> t - window) history
      in if length past_data < 5 then
           (if length past_data = 0 then Inr t
            else Inr (t + mean (column Offset past_data)))
         else
           (case remove_outliers pf past_data Offset (Some LocalTime) (Some SigOffset)
                   level degree of
              Inl e \<Rightarrow> Inl e
            | Inr filtered_data \<Rightarrow>
                if length filtered_data < 5 then
                  (if length filtered_data = 0 then Inr t
                   else Inr (t + mean (column Offset past_data)))
                else
                  (case polyfit_with_uncertainty pf filtered_data LocalTime Offset
                          (Some SigOffset) degree of
                     Inl e \<Rightarrow> Inl e
                   | Inr trend \<Rightarrow> Inr (t + polyval trend t))))"

subsection \<open>The acquisition cycle\<close>

text \<open>The fields of an NTP response that the loop reads.\<close>

record response =
  orig_time :: real
  dest_time :: real
  tx_time :: real
  recv_time :: real
  resp_offset :: real
  root_dispersion :: real

text \<open>A list comprehension whose element expression may raise stops at the first error.\<close>

fun collect :: "(error + 'a) list \<Rightarrow> error + 'a list" where
  "collect [] = Inr []"
| "collect (x # xs) =
     (case x of
        Inl e \<Rightarrow> Inl e
      | Inr v \<Rightarrow> (case collect xs of Inl e \<Rightarrow> Inl e | Inr vs \<Rightarrow> Inr (v # vs)))"

text \<open>\<open>pd.DataFrame({...})\<close> from seven columns of one length.\<close>

definition data_frame ::
    "real list \<Rightarrow> real list \<Rightarrow> real list \<Rightarrow> real list \<Rightarrow> real list \<Rightarrow> real list \<Rightarrow> real list
       \<Rightarrow> row list" where
  "data_frame local_times pred_times serv_times offsets sig_offsets pred_offsets sig_pred_offsets =
     map (\<lambda>i. \<lparr>local_time = local_times ! i, pred_time = pred_times ! i,
                serv_time = serv_times ! i, offset = offsets ! i,
                sig_offset = sig_offsets ! i, pred_offset = pred_offsets ! i,
                sig_pred_offset = sig_pred_offsets ! i\<rparr>)
       [0..<length local_times]"

text \<open>
  The trim loop of the cycle (the \<open>while\<close> at the end of batch collection). \<open>n\<close> is
  \<open>len(offsets)\<close>, the size of the batch as collected; \<open>sample_data\<close> is the loop variable.
\<close>

function trim_loop :: "fitter \<Rightarrow> nat \<Rightarrow> row list \<Rightarrow> error + row list" where
  "trim_loop pf n sample_data =
     (case count_outliers pf sample_data Offset (Some LocalTime) (Some SigOffset) (1 / 2) 3 of
        Inl e \<Rightarrow> Inl e
      | Inr c \<Rightarrow>
          if real c > real n / 20 then
            (if length sample_data < 5 then Inr sample_data
             else
               (case remove_outliers pf sample_data Offset (Some LocalTime) (Some SigOffset)
                       (1 / 2) 3 of
                  Inl e \<Rightarrow> Inl e
                | Inr d \<Rightarrow> trim_loop pf n d))
          else Inr sample_data)"
  by pat_completeness auto
termination
proof (relation "measure (\<lambda>(pf, n, sample_data). length sample_data)")
  show "wf (measure (\<lambda>(pf, n, sample_data). length sample_data))"
    by simp
next
  fix pf :: fitter and n :: nat and sample_data d :: "row list" and c :: nat
  assume c: "count_outliers pf sample_data Offset (Some LocalTime) (Some SigOffset) (1 / 2) 3
               = Inr c"
    and pos: "real n / 20 < real c"
    and d: "remove_outliers pf sample_data Offset (Some LocalTime) (Some SigOffset) (1 / 2) 3
              = Inr d"
  from c d obtain flt where
    flt: "outlier_filter pf sample_data Offset (Some LocalTime) (Some SigOffset) (1 / 2) 3
            = Inr flt"
    and c_eq: "c = length (filter Not flt)"
    and d_eq: "d = map fst (filter snd (zip sample_data flt))"
    by (auto simp: count_outliers_def remove_outliers_def split: sum.splits)
  from flt have len: "length sample_data = length flt"
    by (auto simp: outlier_filter_def column_def Let_def split: sum.splits option.splits)
  have "length (filter snd (zip xs bs)) + length (filter Not bs) = length xs"
    if "length xs = length bs" for xs :: "row list" and bs
    using that by (induction xs bs rule: list_induct2) auto
  from this [OF len] have "length d + c = length sample_data"
    by (simp add: c_eq d_eq)
  moreover from pos have "0 < c"
    by (cases c) auto
  ultimately show "((pf, n, d), (pf, n, sample_data))
      \<in> measure (\<lambda>(pf, n, sample_data). length sample_data)"
    by simp
qed

text \<open>The same loop, counting how often its body removes outliers.\<close>

function trim_iterations :: "fitter \<Rightarrow> nat \<Rightarrow> row list \<Rightarrow> nat" where
  "trim_iterations pf n sample_data =
     (case count_outliers pf sample_data Offset (Some LocalTime) (Some SigOffset) (1 / 2) 3 of
        Inl e \<Rightarrow> 0
      | Inr c \<Rightarrow>
          if real c > real n / 20 then
            (if length sample_data < 5 then 0
             else
               (case remove_outliers pf sample_data Offset (Some LocalTime) (Some SigOffset)
                       (1 / 2) 3 of
                  Inl e \<Rightarrow> 0
                | Inr d \<Rightarrow> Suc (trim_iterations pf n d)))
          else 0)"
  by pat_completeness auto
termination
proof (relation "measure (\<lambda>(pf, n, sample_data). length sample_data)")
  show "wf (measure (\<lambda>(pf, n, sample_data). length sample_data))"
    by simp
next
  fix pf :: fitter and n :: nat and sample_data d :: "row list" and c :: nat
  assume c: "count_outliers pf sample_data Offset (Some LocalTime) (Some SigOffset) (1 / 2) 3
               = Inr c"
    and pos: "real n / 20 < real c"
    and d: "remove_outliers pf sample_data Offset (Some LocalTime) (Some SigOffset) (1 / 2) 3
              = Inr d"
  from c d obtain flt where
    flt: "outlier_filter pf sample_data Offset (Some LocalTime) (Some SigOffset) (1 / 2) 3
            = Inr flt"
    and c_eq: "c = length (filter Not flt)"
    and d_eq: "d = map fst (filter snd (zip sample_data flt))"
    by (auto simp: count_outliers_def remove_outliers_def split: sum.splits)
  from flt have len: "length sample_data = length flt"
    by (auto simp: outlier_filter_def column_def Let_def split: sum.splits option.splits)
  have "length (filter snd (zip xs bs)) + length (filter Not bs) = length xs"
    if "length xs = length bs" for xs :: "row list" and bs
    using that by (induction xs bs rule: list_induct2) auto
  from this [OF len] have "length d + c = length sample_data"
    by (simp add: c_eq d_eq)
  moreover from pos have "0 < c"
    by (cases c) auto
  ultimately show "((pf, n, d), (pf, n, sample_data))
      \<in> measure (\<lambda>(pf, n, sample_data). length sample_data)"
    by simp
qed

declare trim_loop.simps [simp del] trim_iterations.simps [simp del]

text \<open>
  One pass of the body of \<open>while True\<close>, from the collected responses to the new row. The
  frame left by the trim loop is bound to \<open>sample_data\<close> and not read again: the means are
  taken of the arrays \<open>local_times\<close>, \<open>pred_times\<close>, \<open>serv_times\<close>, \<open>offsets\<close>,
  \<open>sig_offsets\<close>, \<open>pred_offsets\<close>, as in the source.
\<close>

definition aggregate :: "fitter \<Rightarrow> response list \<Rightarrow> row list \<Rightarrow> error + row" where
  "aggregate pf responses history =
     (let orig_times = map orig_time responses;
          dest_times = map dest_time responses;
          local_times = map2 (\<lambda>a b. (a + b) / 2) orig_times dest_times
      in case collect (map (\<lambda>localtime. predict_time pf localtime history 3000 (3 / 2) 3)
                         local_times) of
           Inl e \<Rightarrow> Inl e
         | Inr pred_times \<Rightarrow>
             (let tx_times = map tx_time responses;
                  rx_times = map recv_time responses;
                  serv_times = map2 (\<lambda>a b. (a + b) / 2) tx_times rx_times;
                  offsets = map resp_offset responses;
                  sig_offsets = map root_dispersion responses;
                  pred_offsets = map (\<lambda>i. serv_times ! i - pred_times ! i)
                                   [0..<length pred_times];
                  sig_pred_offsets = sig_offsets;
                  sample_data = data_frame local_times pred_times serv_times offsets
                                  sig_offsets pred_offsets sig_pred_offsets
              in case trim_loop pf (length offsets) sample_data of
                   Inl e \<Rightarrow> Inl e
                 | Inr sample_data \<Rightarrow>
                     (case weighted_mean offsets sig_offsets of
                        Inl e \<Rightarrow> Inl e
                      | Inr (offset', sig_offset') \<Rightarrow>
                          (case weighted_mean pred_offsets sig_pred_offsets of
                             Inl e \<Rightarrow> Inl e
                           | Inr (pred_offset', sig_pred_offset') \<Rightarrow>
                               Inr \<lparr>local_time = mean local_times,
                                    pred_time = mean pred_times,
                                    serv_time = mean serv_times,
                                    offset = offset', sig_offset = sig_offset',
                                    pred_offset = pred_offset',
                                    sig_pred_offset = sig_pred_offset'\<rparr>))))"

subsection \<open>A least-squares trend fitter\<close>

text \<open>
  Modelled from the spec: \<open>np.polyfit\<close> is not part of the repository. The spec's TrendFitter
  fits a polynomial of degree \<open>deg\<close> to the points, optionally weighted, minimising the
  weighted sum of squared residuals, and degenerate input (fewer than \<open>deg + 1\<close> distinct x
  values) is the error \<open>UnderdeterminedFit\<close>. The weights multiply the residuals before
  squaring, as numpy documents for its \<open>w\<close> argument. The minimiser is the solution of
  the normal equations, found by elimination without row exchanges (the matrix is
  symmetric and, for non-degenerate input, positive definite); a zero pivot is the
  degenerate case.
\<close>

definition normal_equations :: "real list \<Rightarrow> real list \<Rightarrow> nat \<Rightarrow> real list \<Rightarrow> real list list" where
  "normal_equations x y deg w =
     (let pts = zip x (zip y w);
          powers = rev [0..<Suc deg]
      in map (\<lambda>a. map (\<lambda>b. sum_list (map (\<lambda>(xi, yi, wi). wi ^ 2 * xi ^ (a + b)) pts)) powers
                  @ [sum_list (map (\<lambda>(xi, yi, wi). wi ^ 2 * yi * xi ^ a) pts)])
           powers)"

text \<open>Elimination on the augmented rows \<open>[a\<^sub>1, \<dots>, a\<^sub>n, b]\<close>, then back substitution.\<close>

function gauss :: "real list list \<Rightarrow> real list option" where
  "gauss [] = Some []"
| "gauss (r # rs) =
     (case r of
        [] \<Rightarrow> None
      | p # r' \<Rightarrow>
          if p = 0 then None
          else
            (let r1 = map (\<lambda>v. v / p) r';
                 rs' = map (\<lambda>row. map2 (\<lambda>u v. u - hd row * v) (tl row) r1) rs
             in case gauss rs' of
                  None \<Rightarrow> None
                | Some sol \<Rightarrow> Some ((last r1 - sum_list (map2 (*) (butlast r1) sol)) # sol)))"
  by pat_completeness auto
termination
  by (relation "measure length") auto

text \<open>
  Modelled from the spec: the TrendFitter itself, in place of \<open>np.polyfit\<close>. Without
  weights every point has weight 1.
\<close>

definition np_polyfit :: fitter where
  "np_polyfit x y deg w =
     (let ws = (case w of None \<Rightarrow> replicate (length x) 1 | Some ws \<Rightarrow> ws)
      in case gauss (normal_equations x y deg ws) of
           None \<Rightarrow> Inl UnderdeterminedFit
         | Some c \<Rightarrow> Inr c)"

subsection \<open>Writing the history line\<close>

text \<open>
  The format specification \<open>.4e\<close> of the f-string, for a precision \<open>p\<close>: the sign, one
  digit, the point, \<open>p\<close> digits, then \<open>e\<close>, the sign of the exponent and at least two
  exponent digits. The value is rounded to \<open>p + 1\<close> digits, ties to even.
\<close>

function decimal_exponent :: "real \<Rightarrow> int" where
  "decimal_exponent a =
     (if a \<le> 0 then 0
      else if 10 \<le> a then decimal_exponent (a / 10) + 1
      else if a < 1 then decimal_exponent (a * 10) - 1
      else 0)"
  by pat_completeness auto
termination
proof (relation "measure (\<lambda>a. if 1 \<le> a then nat \<lfloor>a\<rfloor> else nat \<lceil>1 / a\<rceil> + 10)")
  show "wf (measure (\<lambda>a. if 1 \<le> a then nat \<lfloor>a\<rfloor> else nat \<lceil>1 / a\<rceil> + 10))"
    by simp
next
  fix a :: real
  assume "\<not> a \<le> 0" and a: "10 \<le> a"
  then have "a / 10 \<le> a - 9" by simp
  then have "\<lfloor>a / 10\<rfloor> \<le> \<lfloor>a - 9\<rfloor>" by (rule floor_mono)
  also have "\<lfloor>a - 9\<rfloor> = \<lfloor>a\<rfloor> - 9" by simp
  finally have "\<lfloor>a / 10\<rfloor> < \<lfloor>a\<rfloor>" by simp
  moreover from a have "0 \<le> \<lfloor>a / 10\<rfloor>" by simp
  ultimately show "(a / 10, a)
      \<in> measure (\<lambda>a. if 1 \<le> a then nat \<lfloor>a\<rfloor> else nat \<lceil>1 / a\<rceil> + 10)"
    using a by simp
next
  fix a :: real
  assume pos: "\<not> a \<le> 0" and "\<not> 10 \<le> a" and a: "a < 1"
  show "(a * 10, a)
      \<in> measure (\<lambda>a. if 1 \<le> a then nat \<lfloor>a\<rfloor> else nat \<lceil>1 / a\<rceil> + 10)"
  proof (cases "1 \<le> a * 10")
    case True
    from a have "a * 10 < 10" by simp
    then have "\<lfloor>a * 10\<rfloor> < 10" by (simp add: floor_less_iff)
    then have "nat \<lfloor>a * 10\<rfloor> < nat \<lceil>1 / a\<rceil> + 10" by linarith
    with True a show ?thesis by simp
  next
    case False
    with pos have big: "10 < 1 / a" by (simp add: field_simps)
    then have "1 / a / 10 \<le> 1 / a - 9" by simp
    then have "\<lceil>1 / a / 10\<rceil> \<le> \<lceil>1 / a - 9\<rceil>" by (rule ceiling_mono)
    also have "\<lceil>1 / a - 9\<rceil> = \<lceil>1 / a\<rceil> - 9" by simp
    finally have "\<lceil>1 / (a * 10)\<rceil> < \<lceil>1 / a\<rceil>" by (simp add: divide_simps mult.commute)
    moreover from pos have "0 < \<lceil>1 / a\<rceil>" by (simp add: less_ceiling_iff)
    ultimately show ?thesis using False a by simp
  qed
qed

declare decimal_exponent.simps [simp del]

definition round_half_even :: "real \<Rightarrow> int" where
  "round_half_even v =
     (let f = \<lfloor>v\<rfloor>; d = v - of_int f
      in if d < 1 / 2 then f
         else if 1 / 2 < d then f + 1
         else if even f then f else f + 1)"

function digits :: "nat \<Rightarrow> string" where
  "digits n = (if n < 10 then [''0123456789'' ! n]
               else digits (n div 10) @ [''0123456789'' ! (n mod 10)])"
  by pat_completeness auto
termination
  by (relation "measure id") auto

declare digits.simps [simp del]

definition format_e :: "nat \<Rightarrow> real \<Rightarrow> string" where
  "format_e p x =
     (if x = 0 then ''0'' @ (if p = 0 then [] else ''.'' @ replicate p (CHR ''0'')) @ ''e+00''
      else
        let a = \<bar>x\<bar>;
            e0 = decimal_exponent a;
            m0 = nat (round_half_even (a * 10 powi (int p - e0)));
            m = (if m0 = 10 ^ (p + 1) then 10 ^ p else m0);
            e = (if m0 = 10 ^ (p + 1) then e0 + 1 else e0);
            ds = digits m;
            es = digits (nat \<bar>e\<bar>)
        in (if x < 0 then ''-'' else [])
           @ [hd ds] @ (if p = 0 then [] else ''.'' @ tl ds)
           @ ''e'' @ (if e < 0 then ''-'' else ''+'')
           @ (if length es < 2 then ''0'' @ es else es))"

text \<open>
  The three time fields are interpolated with no format specification, so they are
  written by the default conversion of a float to a string, a parameter \<open>str\<close> here.
\<close>

definition new_line :: "(real \<Rightarrow> string) \<Rightarrow> row \<Rightarrow> string" where
  "new_line str r =
     str (local_time r) @ '', '' @ str (pred_time r) @ '', '' @ str (serv_time r) @ '', ''
     @ format_e 4 (offset r) @ '', '' @ format_e 4 (sig_offset r) @ '', ''
     @ format_e 4 (pred_offset r) @ '', '' @ format_e 4 (sig_pred_offset r) @ [CHR 0x0A]"





text \<open>
  Reading a line of the file back, as \<open>pd.read_csv\<close> does at start-up: the line without
  its end is split at the commas, and each field is taken from its first character that
  is not a blank. \<open>field_text\<close> holds of a text that can stand in a field: it has no
  comma, no blank and no end of line.
\<close>

fun split_commas :: "string \<Rightarrow> string list" where
  "split_commas [] = [[]]"
| "split_commas (c # cs) =
     (if c = CHR '','' then [] # split_commas cs
      else (case split_commas cs of [] \<Rightarrow> [[c]] | f # fs \<Rightarrow> (c # f) # fs))"



subsection \<open>The acquisition process\<close>

text \<open>
  The state that the loop carries from cycle to cycle: the history frame and the text
  appended to the file (\<open>csv_file\<close>). A cycle that raises leaves the loop: nothing in
  the body of \<open>while True\<close> catches an exception outside the request itself.
\<close>

record state =
  history :: "row list"
  csv_file :: string

definition cycle :: "fitter \<Rightarrow> (real \<Rightarrow> string) \<Rightarrow> response list \<Rightarrow> state \<Rightarrow> error + state" where
  "cycle pf str responses st =
     (case aggregate pf responses (history st) of
        Inl e \<Rightarrow> Inl e
      | Inr new_data \<Rightarrow>
          Inr \<lparr>history = history st @ [new_data],
               csv_file = csv_file st @ new_line str new_data\<rparr>)"

text \<open>
  The loop over the cycles; the list holds, for each cycle, the responses of the requests
  that succeeded in it (a failed request is logged and adds nothing).
\<close>

fun run :: "fitter \<Rightarrow> (real \<Rightarrow> string) \<Rightarrow> response list list \<Rightarrow> state \<Rightarrow> error + state" where
  "run pf str [] st = Inr st"
| "run pf str (responses # rest) st =
     (case cycle pf str responses st of
        Inl e \<Rightarrow> Inl e
      | Inr st' \<Rightarrow> run pf str rest st')"

subsection \<open>Example batches\<close>

text \<open>
  A response whose request left and came back at local time \<open>t\<close>, answered by a server
  whose clock is ahead by \<open>off\<close>, with root dispersion 1; and the row that the cycle
  builds for it when the history is empty (the predicted time is then the local time).
\<close>

definition example_response :: "real \<Rightarrow> real \<Rightarrow> response" where
  "example_response t off =
     \<lparr>orig_time = t, dest_time = t, tx_time = t + off, recv_time = t + off,
      resp_offset = off, root_dispersion = 1\<rparr>"

definition example_row :: "real \<Rightarrow> real \<Rightarrow> row" where
  "example_row t off =
     \<lparr>local_time = t, pred_time = t, serv_time = t + off, offset = off, sig_offset = 1,
      pred_offset = off, sig_pred_offset = 1\<rparr>"

text \<open>Five samples one second apart; the third is off by 70.\<close>

definition batch5 :: "response list" where
  "batch5 = [example_response 1 0, example_response 2 0, example_response 3 70,
             example_response 4 0, example_response 5 0]"

definition frame5 :: "row list" where
  "frame5 = [example_row 1 0, example_row 2 0, example_row 3 70, example_row 4 0,
             example_row 5 0]"

definition frame4 :: "row list" where
  "frame4 = [example_row 1 0, example_row 2 0, example_row 4 0, example_row 5 0]"

text \<open>Twenty samples one second apart, off by 100 at 8, by 1 at 11 and by -100 at 14.\<close>

definition frame20 :: "row list" where
  "frame20 =
    [example_row 1 0, example_row 2 0, example_row 3 0, example_row 4 0,
     example_row 5 0, example_row 6 0, example_row 7 0, example_row 8 100,
     example_row 9 0, example_row 10 0, example_row 11 1, example_row 12 0,
     example_row 13 0, example_row 14 (- 100), example_row 15 0, example_row 16 0,
     example_row 17 0, example_row 18 0, example_row 19 0, example_row 20 0]"

text \<open>The same without the samples at 8 and 14.\<close>

definition frame18 :: "row list" where
  "frame18 =
    [example_row 1 0, example_row 2 0, example_row 3 0, example_row 4 0,
     example_row 5 0, example_row 6 0, example_row 7 0, example_row 9 0,
     example_row 10 0, example_row 11 1, example_row 12 0, example_row 13 0,
     example_row 15 0, example_row 16 0, example_row 17 0, example_row 18 0,
     example_row 19 0, example_row 20 0]"

text \<open>A history of five records, three of them within 5 seconds before time 10.\<close>

definition hist_window :: "row list" where
  "hist_window = [example_row 4 100, example_row 5 1, example_row 7 2, example_row 9 3,
                  example_row 10 100]"





section \<open>Properties\<close>

subsection \<open>The outlier mask\<close>

lemma filter_zip_length:
  "length xs = length bs \<Longrightarrow> length (filter snd (zip xs bs)) + length (filter Not bs) = length xs"
  by (induction xs bs rule: list_induct2) auto

lemma outlier_filter_length:
  "outlier_filter pf data fc (Some c) sc level degree = Inr flt \<Longrightarrow> length flt = length data"
  by (auto simp: outlier_filter_def column_def Let_def split: sum.splits option.splits)

lemma count_remove_length:
  assumes "count_outliers pf data fc (Some c) sc level degree = Inr k"
    and "remove_outliers pf data fc (Some c) sc level degree = Inr d"
  shows "length d + k = length data"
proof -
  from assms obtain flt where flt: "outlier_filter pf data fc (Some c) sc level degree = Inr flt"
    and k: "k = length (filter Not flt)" and d: "d = map fst (filter snd (zip data flt))"
    by (auto simp: count_outliers_def remove_outliers_def split: sum.splits)
  from outlier_filter_length [OF flt] filter_zip_length [of data flt] show ?thesis
    by (simp add: k d)
qed

text \<open>
  C8. The trim loop terminates on every batch, and it iterates at most as often as the
  batch has samples: every iteration that continues removes at least one row, so the
  number of iterations plus the number of rows the loop returns is at most the number of
  rows it started with (when the loop ends in an exception, the iterations alone are
  bounded). \<open>trim_loop\<close> is a total function by its termination proof.
\<close>

theorem trim_loop_terminates:
  "trim_iterations pf n sample_data
     + (case trim_loop pf n sample_data of Inl e \<Rightarrow> 0 | Inr r \<Rightarrow> length r)
   \<le> length sample_data"
proof (induction pf n sample_data rule: trim_loop.induct)
  case (1 pf n sample_data)
  show ?case
  proof (cases "count_outliers pf sample_data Offset (Some LocalTime) (Some SigOffset) (1 / 2) 3")
    case (Inl e)
    then show ?thesis
      by (subst trim_loop.simps, subst trim_iterations.simps) simp
  next
    case c: (Inr c)
    show ?thesis
    proof (cases "real c > real n / 20 \<and> \<not> length sample_data < 5")
      case False
      with c show ?thesis
        by (subst trim_loop.simps, subst trim_iterations.simps) auto
    next
      case True
      show ?thesis
      proof (cases "remove_outliers pf sample_data Offset (Some LocalTime) (Some SigOffset) (1 / 2) 3")
        case (Inl e)
        with c True show ?thesis
          by (subst trim_loop.simps, subst trim_iterations.simps) simp
      next
        case d: (Inr d)
        from True have "0 < c" by (cases c) auto
        with count_remove_length [OF c d] have lt: "Suc (length d) \<le> length sample_data"
          by simp
        from "1.IH" [OF c _ _ d] True
        have "trim_iterations pf n d + (case trim_loop pf n d of Inl e \<Rightarrow> 0 | Inr r \<Rightarrow> length r)
                \<le> length d"
          by simp
        with lt c d True show ?thesis
          by (subst trim_loop.simps, subst trim_iterations.simps) simp
      qed
    qed
  qed
qed

subsection \<open>The example batches, evaluated\<close>

lemmas frame_defs = frame5_def frame4_def frame20_def frame18_def example_row_def
lemmas fit_defs = polyfit_with_uncertainty_def weights_from_uncertainty_def column_def
  np_polyfit_def normal_equations_def upt_conv_Cons Let_def
lemmas mask_defs = column_def polyval_def nanquantile_def quantile_def Let_def

lemma fit5: "polyfit_with_uncertainty np_polyfit frame5 LocalTime Offset (Some SigOffset) 3
    = Inr [0, - 10, 60, - 56]"
  by (simp add: frame_defs fit_defs)

lemma fit4: "polyfit_with_uncertainty np_polyfit frame4 LocalTime Offset (Some SigOffset) 3
    = Inr [0, 0, 0, 0]"
  by (simp add: frame_defs fit_defs)

lemma mask5: "outlier_filter np_polyfit frame5 Offset (Some LocalTime) (Some SigOffset) (1 / 2) 3
    = Inr [True, True, False, True, True]"
  apply (simp only: outlier_filter_def fit5 option.case sum.case)
  apply (simp add: frame_defs mask_defs)
  done

lemma mask4: "outlier_filter np_polyfit frame4 Offset (Some LocalTime) (Some SigOffset) (1 / 2) 3
    = Inr [True, True, True, True]"
  apply (simp only: outlier_filter_def fit4 option.case sum.case)
  apply (simp add: frame_defs mask_defs)
  done

lemma count5: "count_outliers np_polyfit frame5 Offset (Some LocalTime) (Some SigOffset) (1 / 2) 3 = Inr 1"
  by (simp add: count_outliers_def mask5)

lemma remove5: "remove_outliers np_polyfit frame5 Offset (Some LocalTime) (Some SigOffset) (1 / 2) 3 = Inr frame4"
  by (simp add: remove_outliers_def mask5) (simp add: frame5_def frame4_def)

lemma count4: "count_outliers np_polyfit frame4 Offset (Some LocalTime) (Some SigOffset) (1 / 2) 3 = Inr 0"
  by (simp add: count_outliers_def mask4)

lemma trim5: "n = 5 \<Longrightarrow> trim_loop np_polyfit n frame5 = Inr frame4"
  apply (subst trim_loop.simps)
  apply (simp add: count5 remove5)
  apply (simp add: frame5_def)
  apply (subst trim_loop.simps)
  apply (simp add: count4)
  done

lemma sample5: "data_frame [1, 2, 3, 4, 5] [1, 2, 3, 4, 5] [1, 2, 73, 4, 5] [0, 0, 70, 0, 0] [1, 1, 1, 1, 1] [0, 0, 70, 0, 0] [1, 1, 1, 1, 1] = frame5"
  by (simp add: data_frame_def frame_defs upt_conv_Cons)

lemma agg5: "aggregate np_polyfit batch5 [] =
   Inr \<lparr>local_time = 3, pred_time = 3, serv_time = 17, offset = 14, sig_offset = sqrt (1 / 5),
        pred_offset = 14, sig_pred_offset = sqrt (1 / 5)\<rparr>"
  apply (simp add: aggregate_def batch5_def example_response_def predict_time_def upt_conv_Cons Let_def sample5 trim5)
  apply (simp add: weighted_mean_def weights_from_uncertainty_def np_average_def mean_def)
  done

lemma wm4: "weighted_mean (column Offset frame4) (column SigOffset frame4) = Inr (0, 1 / 2)"
  by (simp add: weighted_mean_def weights_from_uncertainty_def np_average_def column_def frame_defs real_sqrt_divide)

subsection \<open>Time prediction on sparse history\<close>

text \<open>
  C4. \<open>predict_time\<close> selects the records of the history whose local time lies in the
  half-open window from \<open>t - window\<close> (included) to \<open>t\<close> (excluded). When the selection is
  empty it returns \<open>t\<close> unchanged; when the selection has 1 to 4 records it returns \<open>t\<close>
  plus the arithmetic mean of their offsets. No trend is fitted in either case.
\<close>

theorem predict_time_sparse:
  fixes pf :: fitter and t window :: real and hist :: "row list"
  defines "sel \<equiv> filter (\<lambda>r. t - window \<le> local_time r \<and> local_time r < t) hist"
  shows "(sel = [] \<longrightarrow> predict_time pf t hist window level degree = Inr t) \<and>
         (1 \<le> length sel \<and> length sel \<le> 4 \<longrightarrow>
            predict_time pf t hist window level degree
              = Inr (t + sum_list (map offset sel) / real (length sel)))"
proof -
  have sel: "filter (\<lambda>r. local_time r < t \<and> local_time r \<ge> t - window) hist = sel"
    unfolding sel_def by (rule filter_cong) auto
  have off: "cell Offset = offset"
    by (rule ext) simp
  show ?thesis
    by (auto simp: predict_time_def sel Let_def mean_def column_def off)
qed

theorem predict_time_sparse_witness:
  "filter (\<lambda>r. 10 - 5 \<le> local_time r \<and> local_time r < 10) hist_window
      = [example_row 5 1, example_row 7 2, example_row 9 3]
   \<and> predict_time np_polyfit 10 hist_window 5 (3 / 2) 3 = Inr 12
   \<and> filter (\<lambda>r. 3 - 5 \<le> local_time r \<and> local_time r < 3) hist_window = []
   \<and> predict_time np_polyfit 3 hist_window 5 (3 / 2) 3 = Inr 3"
  using predict_time_sparse [where t = 10 and window = 5 and hist = hist_window
        and pf = np_polyfit and level = "3 / 2" and degree = 3]
    predict_time_sparse [where t = 3 and window = 5 and hist = hist_window
        and pf = np_polyfit and level = "3 / 2" and degree = 3]
  by (simp add: hist_window_def example_row_def)

subsection \<open>Uncertainty weights\<close>

lemma min_list_filter_Min:
  "filter P xs \<noteq> [] \<Longrightarrow> min_list (filter P xs) = Min {s \<in> set xs. P s}"
  by (simp add: min_list_Min)

text \<open>
  C7. When the sequence of uncertainties has a strictly positive entry, the weights are
  \<open>1 / \<sigma>\<^sup>2\<close> after every non-positive \<open>\<sigma>\<close> has been replaced by half the least
  strictly positive entry. The replacement is made in a copy: every array that was in the
  store before the call, the caller's among them, is the same after it. For
  \<open>[0, -1, 2, 4]\<close> the weights are \<open>[1, 1, 1/4, 1/16]\<close>.
\<close>

theorem weights_from_uncertainty_sanitises:
  "(sig_data < length h \<and> (\<exists>s \<in> set (h ! sig_data). 0 < s) \<longrightarrow>
      (\<exists>h' w. weights_from_uncertainty_st k h sig_data = Inr (h', w)
          \<and> take (length h) h' = h \<and> w < length h'
          \<and> h' ! w = map (\<lambda>s. 1 / (if s \<le> 0 then Min {s \<in> set (h ! sig_data). 0 < s} / 2 else s) ^ 2)
                        (h ! sig_data)
          \<and> weights_from_uncertainty k (h ! sig_data) = Inr (h' ! w)))
   \<and> weights_from_uncertainty k [0, - 1, 2, 4] = Inr [1, 1, 1 / 4, 1 / 16]"
proof (intro conjI impI)
  assume a: "sig_data < length h \<and> (\<exists>s \<in> set (h ! sig_data). 0 < s)"
  let ?sigs = "h ! sig_data"
  let ?pos = "filter (\<lambda>s. 0 < s) ?sigs"
  from a have ne: "?pos \<noteq> []" by (auto simp: filter_empty_conv)
  then have m: "min_list ?pos = Min {s \<in> set ?sigs. 0 < s}" by (rule min_list_filter_Min)
  let ?w = "map (\<lambda>s. 1 / (if s \<le> 0 then Min {s \<in> set ?sigs. 0 < s} / 2 else s) ^ 2) ?sigs"
  let ?h' = "h @ [map (\<lambda>s. if s \<le> 0 then min_list ?pos / 2 else s) ?sigs, ?w]"
  have "weights_from_uncertainty_st k h sig_data = Inr (?h', Suc (length h))"
    using a ne by (simp add: weights_from_uncertainty_st_def alloc_def Let_def nth_append m o_def)
  moreover have "weights_from_uncertainty k ?sigs = Inr ?w"
    using ne by (simp add: weights_from_uncertainty_def Let_def m o_def)
  ultimately show "\<exists>h' w. weights_from_uncertainty_st k h sig_data = Inr (h', w)
          \<and> take (length h) h' = h \<and> w < length h' \<and> h' ! w = ?w
          \<and> weights_from_uncertainty k ?sigs = Inr (h' ! w)"
    by (intro exI [of _ ?h'] exI [of _ "Suc (length h)"]) (simp add: nth_append)
next
  show "weights_from_uncertainty k [0, - 1, 2, 4] = Inr [1, 1, 1 / 4, 1 / 16]"
    by (simp add: weights_from_uncertainty_def)
qed

theorem weights_from_uncertainty_sanitises_witness:
  "1 < length [[5, 6], [0, - 1, 2, 4 :: real]]
   \<and> (\<exists>s \<in> set ([[5, 6], [0, - 1, 2, 4 :: real]] ! 1). 0 < s)
   \<and> weights_from_uncertainty_st NdArray [[5, 6], [0, - 1, 2, 4]] 1
     = Inr ([[5, 6], [0, - 1, 2, 4], [1, 1, 2, 4], [1, 1, 1 / 4, 1 / 16]], 3)"
  using weights_from_uncertainty_sanitises [of 1 "[[5, 6], [0, - 1, 2, 4]]" NdArray]
  by (simp add: weights_from_uncertainty_st_def alloc_def Let_def)

subsection \<open>The floor of five samples\<close>

lemma trim_loop_short:
  "length sd < 5 \<Longrightarrow> trim_loop pf n sd = Inr r \<Longrightarrow> r = sd"
  by (auto simp: trim_loop.simps [of pf n sd] split: sum.splits if_splits)

lemma trim_loop_last_removal:
  "5 \<le> length sd \<Longrightarrow> trim_loop pf n sd = Inr r \<Longrightarrow> length r < 5 \<Longrightarrow>
     \<exists>s. 5 \<le> length s \<and> length s \<le> length sd \<and> remove_outliers pf s Offset (Some LocalTime) (Some SigOffset) (1 / 2) 3 = Inr r"
proof (induction pf n sd rule: trim_loop.induct)
  case (1 pf n sd)
  note unfold = trim_loop.simps [of pf n sd]
  from "1.prems"(2) obtain c where c: "count_outliers pf sd Offset (Some LocalTime) (Some SigOffset) (1 / 2) 3 = Inr c"
    by (auto simp: unfold split: sum.splits)
  show ?case
  proof (cases "real c > real n / 20")
    case False
    with c "1.prems" show ?thesis
      by (auto simp: unfold)
  next
    case True
    with c "1.prems" obtain d where d: "remove_outliers pf sd Offset (Some LocalTime) (Some SigOffset) (1 / 2) 3 = Inr d" and r: "trim_loop pf n d = Inr r"
      by (auto simp: unfold split: sum.splits)
    from True have "0 < c" by (cases c) auto
    with count_remove_length [OF c d] have le: "length d \<le> length sd" by simp
    show ?thesis
    proof (cases "length d < 5")
      case True
      from trim_loop_short [OF True r] have "r = d" .
      with d "1.prems"(1) show ?thesis by auto
    next
      case False
      with "1.IH" [OF c \<open>real c > real n / 20\<close> _ d _ r "1.prems"(3)] "1.prems"(1)
      obtain s where "5 \<le> length s" "length s \<le> length d" "remove_outliers pf s Offset (Some LocalTime) (Some SigOffset) (1 / 2) 3 = Inr r"
        by auto
      with le show ?thesis by (intro exI [of _ s]) simp
    qed
  qed
qed

lemma trim4: "trim_loop np_polyfit n frame4 = Inr frame4"
  by (subst trim_loop.simps) (simp add: count4)

text \<open>
  C2, as the code has it. The loop tests the floor before a removal, on the frame the
  removal is applied to, not on its result. A frame of fewer than 5 rows is returned as it
  is, with no removal; and when an input of at least 5 rows ends as fewer than 5, what is
  returned is the direct result of one removal applied to a frame of at least 5 rows.
\<close>

theorem trim_floor_before_removal:
  "(length sd < 5 \<and> trim_loop pf n sd = Inr r \<longrightarrow> r = sd) \<and>
   (5 \<le> length sd \<and> trim_loop pf n sd = Inr r \<and> length r < 5 \<longrightarrow>
      (\<exists>s. 5 \<le> length s \<and> length s \<le> length sd
           \<and> remove_outliers pf s Offset (Some LocalTime) (Some SigOffset) (1 / 2) 3 = Inr r))"
  using trim_loop_short [of sd pf n r] trim_loop_last_removal [of sd pf n r] by blast

theorem trim_floor_before_removal_witness:
  "length frame4 < 5 \<and> trim_loop np_polyfit 5 frame4 = Inr frame4
   \<and> 5 \<le> length frame5 \<and> trim_loop np_polyfit 5 frame5 = Inr frame4
   \<and> (\<exists>s. 5 \<le> length s \<and> length s \<le> length frame5
           \<and> remove_outliers np_polyfit s Offset (Some LocalTime) (Some SigOffset) (1 / 2) 3
               = Inr frame4)"
  using trim_floor_before_removal [of frame5 np_polyfit 5 frame4]
    trim_floor_before_removal [of frame4 np_polyfit 5 frame4]
  by (simp add: trim5 trim4) (simp add: frame5_def frame4_def)

text \<open>
  C2, as stated, fails: the five samples of \<open>frame5\<close> are an input of at least 5 rows, one
  of them is flagged and removed, and the loop returns the 4 rows of \<open>frame4\<close>.
\<close>

theorem trim_floor_counterexample:
  "5 \<le> length frame5 \<and> trim_loop np_polyfit (length frame5) frame5 = Inr frame4
   \<and> length frame4 < 5"
proof -
  have "length frame5 = 5" and "length frame4 = 4"
    by (simp_all add: frame5_def frame4_def)
  then show ?thesis
    by (simp add: trim5)
qed

subsection \<open>An empty batch\<close>

text \<open>
  C3. When every request of a cycle fails, the batch is empty. The cycle then raises,
  whatever the trend fitter does on empty input: either the fitter's own error, or the
  IndexError of the outlier filter (the quartiles of an empty series). No record is
  appended, and since nothing catches the exception the loop ends there: the cycles that
  follow are not run.
\<close>

theorem empty_batch_raises:
  "run pf str ([] # rest) st
     = Inl (case pf [] [] 3 (Some []) of Inl e \<Rightarrow> e | Inr trend \<Rightarrow> IndexError)"
proof -
  have "aggregate pf [] (history st)
          = Inl (case pf [] [] 3 (Some []) of Inl e \<Rightarrow> e | Inr trend \<Rightarrow> IndexError)"
    apply (simp add: aggregate_def data_frame_def Let_def)
    apply (subst trim_loop.simps)
    apply (simp add: count_outliers_def outlier_filter_def polyfit_with_uncertainty_def
        weights_from_uncertainty_def column_def Let_def nanquantile_def split: sum.splits)
    done
  then show ?thesis
    by (simp add: cycle_def)
qed

subsection \<open>No usable uncertainty\<close>

text \<open>
  C6. When no uncertainty of a numpy array is strictly positive, the least positive
  uncertainty is taken of an empty selection and \<open>weights_from_uncertainty\<close> raises
  ValueError; its caller \<open>weighted_mean\<close> lets the exception through and does not fall
  back to the unweighted mean.
\<close>

theorem no_positive_uncertainty_raises:
  "(\<forall>s \<in> set sig_data. s \<le> 0) \<longrightarrow>
     weights_from_uncertainty NdArray sig_data = Inl ValueError
     \<and> weighted_mean data sig_data = Inl ValueError"
  by (auto simp: weights_from_uncertainty_def weighted_mean_def filter_empty_conv Let_def not_less)

theorem no_positive_uncertainty_raises_witness:
  "list_all (\<lambda>s. s \<le> 0) [0, 0 :: real]
   \<and> weights_from_uncertainty NdArray [0, 0] = Inl ValueError
   \<and> weighted_mean [1, 2] [0, 0] = Inl ValueError
   \<and> mean [1, 2] = 3 / 2"
  using no_positive_uncertainty_raises [of "[0, 0]" "[1, 2]"]
  by (simp add: mean_def)

subsection \<open>Time prediction after the trim\<close>

text \<open>
  Some value of a series of at least three lies between its quartiles, so the fence of
  a non-negative level never excludes every row.
\<close>

lemma interpolate_between:
  fixes x y f :: real
  assumes "x \<le> y" "0 \<le> f" "f \<le> 1"
  shows "x \<le> x + f * (y - x)" and "x + f * (y - x) \<le> y"
proof -
  from assms have "0 \<le> f * (y - x)" by simp
  then show "x \<le> x + f * (y - x)" by simp
  from assms have "f * (y - x) \<le> 1 * (y - x)" by (intro mult_right_mono) simp_all
  then show "x + f * (y - x) \<le> y" by simp
qed

lemma quartiles_enclose:
  assumes len: "3 \<le> length a"
  shows "\<exists>v \<in> set a. quantile a (1 / 4) \<le> v \<and> v \<le> quantile a (3 / 4)"
proof -
  define s where "s = sort a"
  define m where "m = length a - 1"
  define lo1 where "lo1 = nat \<lfloor>real m * (1 / 4)\<rfloor>"
  define lo3 where "lo3 = nat \<lfloor>real m * (3 / 4)\<rfloor>"
  have sorted: "sorted s" and ls: "length s = Suc m" and set: "set s = set a"
    using len by (simp_all add: s_def m_def)
  from len have m2: "2 \<le> m" by (simp add: m_def)
  have f1: "real lo1 \<le> real m * (1 / 4)" "real m * (1 / 4) < real lo1 + 1"
    unfolding lo1_def by linarith+
  have f3: "real lo3 \<le> real m * (3 / 4)" "real m * (3 / 4) < real lo3 + 1"
    unfolding lo3_def by linarith+
  from m2 have "2 \<le> real m" by simp
  with f1 f3 have "real lo1 < real lo3" "real lo3 \<le> real m"
    by linarith+
  then have order: "lo1 + 1 \<le> lo3" "lo3 \<le> m"
    by linarith+
  then have hi1: "min (lo1 + 1) m = lo1 + 1" by simp
  have q1: "quantile a (1 / 4)
      = s ! lo1 + (real m * (1 / 4) - real lo1) * (s ! (lo1 + 1) - s ! lo1)"
    unfolding quantile_def Let_def s_def m_def lo1_def length_sort
    by (simp only: hi1 [unfolded m_def lo1_def])
  have q3: "quantile a (3 / 4)
      = s ! lo3 + (real m * (3 / 4) - real lo3) * (s ! min (lo3 + 1) m - s ! lo3)"
    unfolding quantile_def Let_def s_def m_def lo3_def length_sort
    by (rule refl)
  have mono: "s ! i \<le> s ! j" if "i \<le> j" "j \<le> m" for i j
    using sorted that ls by (simp add: sorted_nth_mono)
  from order have "s ! lo1 \<le> s ! (lo1 + 1)" by (intro mono) simp_all
  from interpolate_between(2) [OF this, of "real m * (1 / 4) - real lo1"] f1
  have "quantile a (1 / 4) \<le> s ! (lo1 + 1)"
    unfolding q1 by simp
  moreover from order have "s ! (lo1 + 1) \<le> s ! lo3" by (intro mono) simp_all
  moreover have "s ! lo3 \<le> s ! min (lo3 + 1) m" using order by (intro mono) simp_all
  from interpolate_between(1) [OF this, of "real m * (3 / 4) - real lo3"] f3
  have "s ! lo3 \<le> quantile a (3 / 4)"
    unfolding q3 by simp
  moreover from order ls have "s ! (lo1 + 1) \<in> set s" by (intro nth_mem) simp
  ultimately show ?thesis
    unfolding set [symmetric] by (intro bexI [of _ "s ! (lo1 + 1)"]) auto
qed

lemma outlier_filter_keeps_one:
  assumes level: "0 \<le> level" and len: "3 \<le> length data"
    and flt: "outlier_filter pf data filter_column fit_column sig_column level degree = Inr flt"
  shows "length flt = length data" and "True \<in> set flt"
proof -
  define inner where "inner =
     (case fit_column of
        None \<Rightarrow> Inr (column filter_column data)
      | Some fc \<Rightarrow>
          (case polyfit_with_uncertainty pf data fc filter_column sig_column degree of
             Inl e \<Rightarrow> Inl e
           | Inr trend \<Rightarrow>
               Inr (map2 (\<lambda>v x. v - polyval trend x)
                      (column filter_column data) (column fc data))))"
  define mask where "mask fd =
     (case nanquantile fd [1 / 4, 3 / 4] of
        None \<Rightarrow> Inl IndexError
      | Some quartiles \<Rightarrow>
          (let iqr = quartiles ! 1 - quartiles ! 0;
               min_val = quartiles ! 0 - level * iqr;
               max_val = quartiles ! 1 + level * iqr
           in Inr (map (\<lambda>v. v \<ge> min_val \<and> v \<le> max_val) fd)))" for fd
  have "outlier_filter pf data filter_column fit_column sig_column level degree
          = (case inner of Inl e \<Rightarrow> Inl e | Inr fd \<Rightarrow> mask fd)"
    unfolding outlier_filter_def inner_def mask_def by (rule refl)
  with flt obtain fd where fd: "inner = Inr fd" and res: "mask fd = Inr flt"
    by (cases inner) simp_all
  from fd have lfd: "length fd = length data"
    by (auto simp: inner_def column_def split: option.splits sum.splits)
  from len lfd have ne: "fd \<noteq> []" by auto
  define q1 where "q1 = quantile fd (1 / 4)"
  define q3 where "q3 = quantile fd (3 / 4)"
  from res ne have flt_eq:
    "flt = map (\<lambda>v. v \<ge> q1 - level * (q3 - q1) \<and> v \<le> q3 + level * (q3 - q1)) fd"
    by (auto simp: mask_def nanquantile_def Let_def q1_def q3_def)
  with lfd show "length flt = length data" by simp
  from len lfd have "3 \<le> length fd" by simp
  from quartiles_enclose [OF this] obtain v where v: "v \<in> set fd" "q1 \<le> v" "v \<le> q3"
    by (auto simp: q1_def q3_def)
  then have "0 \<le> q3 - q1" by simp
  with level have "0 \<le> level * (q3 - q1)" by simp
  with v have "v \<ge> q1 - level * (q3 - q1) \<and> v \<le> q3 + level * (q3 - q1)" by simp
  with v(1) show "True \<in> set flt"
    unfolding flt_eq by (auto simp: image_iff intro!: bexI [of _ v])
qed

lemma remove_outliers_nonempty:
  assumes "0 \<le> level" and "3 \<le> length data"
    and d: "remove_outliers pf data filter_column fit_column sig_column level degree = Inr d"
  shows "d \<noteq> []"
proof -
  from d obtain flt where
    flt: "outlier_filter pf data filter_column fit_column sig_column level degree = Inr flt"
    and d_eq: "d = map fst (filter snd (zip data flt))"
    by (auto simp: remove_outliers_def split: sum.splits)
  from outlier_filter_keeps_one [OF assms(1,2) flt]
  have len: "length flt = length data" and "True \<in> set flt"
    by simp_all
  then obtain i where i: "i < length flt" "flt ! i" by (auto simp: in_set_conv_nth)
  with len have "(data ! i, True) \<in> set (zip data flt)"
    by (auto simp: in_set_zip intro!: exI [of _ i])
  then have "\<exists>x \<in> set (zip data flt). snd x"
    by force
  then have "filter snd (zip data flt) \<noteq> []"
    by (simp add: filter_empty_conv)
  then show ?thesis by (simp add: d_eq)
qed

lemma window5:
  "lo \<le> 1 \<Longrightarrow> filter (\<lambda>r. local_time r < 6 \<and> local_time r \<ge> lo) frame5 = frame5"
  by (simp add: frame_defs)

lemma window5':
  "lo \<le> 1 \<Longrightarrow> filter (\<lambda>r. lo \<le> local_time r \<and> local_time r < 6) frame5 = frame5"
  by (simp add: frame_defs)

lemma length_frames: "length frame5 = 5" "length frame4 = 4"
  by (simp_all add: frame5_def frame4_def)

lemma mean5: "mean (column Offset frame5) = 14"
  by (simp add: mean_def column_def frame_defs)

lemma predict5_half: "predict_time np_polyfit 6 frame5 3000 (1 / 2) 3 = Inr 20"
  by (simp add: predict_time_def window5 length_frames remove5 mean5)

text \<open>
  C5. For a level that is not negative (the IQR multiplier; 1.5 by default and at the one
  call): when the selection has at least 5 records and fewer than 5 of them survive the
  outlier removal, \<open>predict_time\<close> returns \<open>t\<close> plus the mean offset of the selection before
  the removal. The surviving set is then never empty (\<open>remove_outliers_nonempty\<close>), so
  the branch of the source that returns \<open>t\<close> unchanged is not taken.
\<close>

theorem predict_time_few_survivors:
  fixes pf :: fitter and t window :: real and hist :: "row list"
  defines "sel \<equiv> filter (\<lambda>r. t - window \<le> local_time r \<and> local_time r < t) hist"
  shows "0 \<le> level \<and> 5 \<le> length sel
          \<and> remove_outliers pf sel Offset (Some LocalTime) (Some SigOffset) level degree = Inr fd
          \<and> length fd < 5
          \<longrightarrow> predict_time pf t hist window level degree
                = Inr (t + sum_list (map offset sel) / real (length sel))"
proof
  assume a: "0 \<le> level \<and> 5 \<le> length sel
          \<and> remove_outliers pf sel Offset (Some LocalTime) (Some SigOffset) level degree = Inr fd
          \<and> length fd < 5"
  have sel: "filter (\<lambda>r. local_time r < t \<and> local_time r \<ge> t - window) hist = sel"
    unfolding sel_def by (rule filter_cong) auto
  have off: "cell Offset = offset"
    by (rule ext) simp
  from a have "fd \<noteq> []"
    by (intro remove_outliers_nonempty [of level sel pf Offset "Some LocalTime" "Some SigOffset" degree])
      simp_all
  with a show "predict_time pf t hist window level degree
                = Inr (t + sum_list (map offset sel) / real (length sel))"
    by (simp add: predict_time_def sel Let_def mean_def column_def off)
qed

theorem predict_time_few_survivors_witness:
  "(0 :: real) \<le> 1 / 2
   \<and> 5 \<le> length (filter (\<lambda>r. 6 - 3000 \<le> local_time r \<and> local_time r < 6) frame5)
   \<and> remove_outliers np_polyfit (filter (\<lambda>r. 6 - 3000 \<le> local_time r \<and> local_time r < 6) frame5)
         Offset (Some LocalTime) (Some SigOffset) (1 / 2) 3 = Inr frame4
   \<and> length frame4 < 5
   \<and> predict_time np_polyfit 6 frame5 3000 (1 / 2) 3 = Inr (6 + 14)"
  using predict_time_few_survivors [where t = 6 and window = 3000 and hist = frame5
        and pf = np_polyfit and level = "1 / 2" and degree = 3 and fd = frame4]
  by (simp add: window5' length_frames remove5 predict5_half)

subsection \<open>The aggregates of a cycle\<close>

lemma wm4_pred: "weighted_mean (column PredOffset frame4) (column SigPredOffset frame4) = Inr (0, 1 / 2)"
  by (simp add: weighted_mean_def weights_from_uncertainty_def np_average_def column_def frame_defs real_sqrt_divide)

lemma means4: "mean (column LocalTime frame4) = 3" "mean (column PredTime frame4) = 3"
  "mean (column ServTime frame4) = 3"
  by (simp_all add: mean_def column_def frame_defs)

text \<open>
  C1. The cycle on \<open>batch5\<close> with an empty history builds the frame \<open>frame5\<close>; the trim loop
  removes the third sample and leaves \<open>frame4\<close>. The record of the cycle nevertheless
  holds the aggregates of all five samples (offset 14, server time 17), where the
  surviving four give offset 0 with standard error 1/2 and server time 3: the aggregates
  are taken of the arrays as collected, not of the trimmed frame.
\<close>

theorem aggregate_ignores_trim:
  "aggregate np_polyfit batch5 []
     = Inr \<lparr>local_time = 3, pred_time = 3, serv_time = 17, offset = 14,
            sig_offset = sqrt (1 / 5), pred_offset = 14, sig_pred_offset = sqrt (1 / 5)\<rparr>
   \<and> data_frame [1, 2, 3, 4, 5] [1, 2, 3, 4, 5] [1, 2, 73, 4, 5] [0, 0, 70, 0, 0]
        [1, 1, 1, 1, 1] [0, 0, 70, 0, 0] [1, 1, 1, 1, 1] = frame5
   \<and> trim_loop np_polyfit (length batch5) frame5 = Inr frame4
   \<and> weighted_mean (column Offset frame4) (column SigOffset frame4) = Inr (0, 1 / 2)
   \<and> weighted_mean (column PredOffset frame4) (column SigPredOffset frame4) = Inr (0, 1 / 2)
   \<and> mean (column LocalTime frame4) = 3
   \<and> mean (column PredTime frame4) = 3
   \<and> mean (column ServTime frame4) = 3"
proof -
  have "length batch5 = 5" by (simp add: batch5_def)
  then show ?thesis
    by (simp add: agg5 sample5 trim5 wm4 wm4_pred means4)
qed

subsection \<open>The threshold of the trim loop\<close>

lemma fit20: "polyfit_with_uncertainty np_polyfit frame20 LocalTime Offset (Some SigOffset) 3
    = Inr [99701 / 1470942, - (2483925 / 1144066), 93858257 / 5148297, - (141824 / 4845)]"
  by (simp add: frame_defs fit_defs)

lemma fit18: "polyfit_with_uncertainty np_polyfit frame18 LocalTime Offset (Some SigOffset) 3
    = Inr [- (252105 / 3085544102), 8198009 / 21598808714, 269246456 / 10799404357,
           - (114904071 / 1542772051)]"
  by (simp add: frame_defs fit_defs)

lemma mask20: "outlier_filter np_polyfit frame20 Offset (Some LocalTime) (Some SigOffset) (1 / 2) 3
    = Inr [True, True, True, True, True, True, True, False, True, True,
           True, True, True, False, True, True, True, True, True, True]"
  apply (simp only: outlier_filter_def fit20 option.case sum.case)
  apply (simp add: frame_defs mask_defs)
  done

lemma mask18: "outlier_filter np_polyfit frame18 Offset (Some LocalTime) (Some SigOffset) (1 / 2) 3
    = Inr [True, True, True, True, True, True, True, True, True, False,
           True, True, True, True, True, True, True, True]"
  apply (simp only: outlier_filter_def fit18 option.case sum.case)
  apply (simp add: frame_defs mask_defs)
  done

lemma count20: "count_outliers np_polyfit frame20 Offset (Some LocalTime) (Some SigOffset) (1 / 2) 3 = Inr 2"
  by (simp add: count_outliers_def mask20)

lemma remove20: "remove_outliers np_polyfit frame20 Offset (Some LocalTime) (Some SigOffset) (1 / 2) 3 = Inr frame18"
  by (simp add: remove_outliers_def mask20) (simp add: frame20_def frame18_def)

lemma count18: "count_outliers np_polyfit frame18 Offset (Some LocalTime) (Some SigOffset) (1 / 2) 3 = Inr 1"
  by (simp add: count_outliers_def mask18)

lemma length_frames20: "length frame20 = 20" "length frame18 = 18"
  by (simp_all add: frame20_def frame18_def)

lemma trim20: "n = 20 \<Longrightarrow> trim_loop np_polyfit n frame20 = Inr frame18"
  apply (subst trim_loop.simps)
  apply (simp add: count20 remove20 length_frames20)
  apply (subst trim_loop.simps)
  apply (simp add: count18)
  done

lemma trim_loop_stop:
  "trim_loop pf n sd = Inr r \<Longrightarrow>
     \<exists>c. count_outliers pf r Offset (Some LocalTime) (Some SigOffset) (1 / 2) 3 = Inr c
        \<and> (real c \<le> real n / 20 \<or> length r < 5)"
proof (induction pf n sd rule: trim_loop.induct)
  case (1 pf n sd)
  note unfold = trim_loop.simps [of pf n sd]
  from "1.prems" obtain c where
    c: "count_outliers pf sd Offset (Some LocalTime) (Some SigOffset) (1 / 2) 3 = Inr c"
    by (auto simp: unfold split: sum.splits)
  show ?case
  proof (cases "real c > real n / 20 \<and> \<not> length sd < 5")
    case False
    with c "1.prems" have "r = sd" by (auto simp: unfold split: if_splits)
    with c False show ?thesis by auto
  next
    case True
    with c "1.prems" obtain d where
      d: "remove_outliers pf sd Offset (Some LocalTime) (Some SigOffset) (1 / 2) 3 = Inr d"
      and r: "trim_loop pf n d = Inr r"
      by (auto simp: unfold split: sum.splits)
    from True "1.IH" [OF c _ _ d r] show ?thesis by simp
  qed
qed

text \<open>
  C10. The frame that the trim loop returns passes the stopping test against \<open>n / 20\<close>,
  where \<open>n\<close> is the size of the batch as collected, the same in every iteration (or it has
  fewer than 5 rows). So the loop can stop while the flagged outliers exceed 1/20 of the
  surviving rows: from the 20 rows of \<open>frame20\<close> it removes 2 and stops at the 18 rows of
  \<open>frame18\<close>, where 1 row is flagged, which is not more than 20/20 but more than 18/20.
\<close>

theorem trim_threshold_fixed:
  "(trim_loop pf n sd = Inr r \<longrightarrow>
      (case count_outliers pf r Offset (Some LocalTime) (Some SigOffset) (1 / 2) 3 of
         Inl e \<Rightarrow> False
       | Inr c \<Rightarrow> real c \<le> real n / 20 \<or> length r < 5))
   \<and> trim_loop np_polyfit (length frame20) frame20 = Inr frame18
   \<and> count_outliers np_polyfit frame18 Offset (Some LocalTime) (Some SigOffset) (1 / 2) 3 = Inr 1
   \<and> real 1 \<le> real (length frame20) / 20
   \<and> real 1 > real (length frame18) / 20"
proof (intro conjI impI)
  assume "trim_loop pf n sd = Inr r"
  from trim_loop_stop [OF this]
  show "case count_outliers pf r Offset (Some LocalTime) (Some SigOffset) (1 / 2) 3 of
         Inl e \<Rightarrow> False
       | Inr c \<Rightarrow> real c \<le> real n / 20 \<or> length r < 5"
    by auto
qed (simp_all add: trim20 count18 length_frames20)

theorem trim_threshold_fixed_witness:
  "trim_loop np_polyfit 20 frame20 = Inr frame18
   \<and> (case count_outliers np_polyfit frame18 Offset (Some LocalTime) (Some SigOffset) (1 / 2) 3 of
         Inl e \<Rightarrow> False
       | Inr c \<Rightarrow> real c \<le> real (20 :: nat) / 20 \<or> length frame18 < 5)"
  using trim_threshold_fixed [of np_polyfit 20 frame20 frame18]
  by (simp add: trim20)

subsection \<open>The digits of the history line\<close>



















lemma split_commas_nonempty: "split_commas s \<noteq> []"
  by (induction s) (auto split: list.splits)













end
